theory Spec2Isabelle
  imports Complex_Main
begin

section \<open>Python values, errors and dictionaries\<close>

text \<open>
  The module \<^verbatim>\<open>ga4gh/datamodel/rna_quantification.py\<close> hydrates GA4GH objects from the
  rows of an sqlite database.  The values that travel through it are dynamically typed:
  a column value read from sqlite is an int, a float or a unicode string, and
  \<^verbatim>\<open>bool(...)\<close> produces a Python bool.  Floats are only stored and compared
  here, never computed with, so they are modelled by \<open>real\<close>.
\<close>

datatype pyval = PyBool bool | PyInt int | PyFloat real | PyStr string

text \<open>
  Every \<^verbatim>\<open>raise\<close> the module can reach is a value of \<open>py_error\<close>; a function that can
  raise returns \<open>py_error + 'a\<close>, with \<open>Inl\<close> the exception.  The two not-found exceptions
  carry the identifier they were raised with.
\<close>

datatype py_error =
    AttributeError
  | KeyError string
  | sqlite3_OperationalError
  | sqlite3_ProgrammingError
  | RnaQuantificationNotFoundException string
  | ExpressionLevelNotFoundException string

definition pbind :: "py_error + 'a \<Rightarrow> ('a \<Rightarrow> py_error + 'b) \<Rightarrow> py_error + 'b" where
  "pbind m f = (case m of Inl e \<Rightarrow> Inl e | Inr v \<Rightarrow> f v)"

text \<open>The list comprehension \<^verbatim>\<open>[f(x) for x in xs]\<close>: the first exception ends it.\<close>

fun comprehension :: "('a \<Rightarrow> py_error + 'b) \<Rightarrow> 'a list \<Rightarrow> py_error + 'b list" where
  "comprehension f [] = Inr []"
| "comprehension f (x # xs) =
     (case f x of
        Inl e \<Rightarrow> Inl e
      | Inr y \<Rightarrow> (case comprehension f xs of Inl e \<Rightarrow> Inl e | Inr ys \<Rightarrow> Inr (y # ys)))"

type_synonym dict = "string \<rightharpoonup> pyval"

text \<open>\<^verbatim>\<open>record[key]\<close> raises KeyError when the key is absent.\<close>

definition getitem :: "dict \<Rightarrow> string \<Rightarrow> py_error + pyval" where
  "getitem d k = (case d k of None \<Rightarrow> Inl (KeyError k) | Some v \<Rightarrow> Inr v)"

text \<open>\<^verbatim>\<open>bool(v)\<close>: zero and the empty string are false.\<close>

fun py_bool :: "pyval \<Rightarrow> bool" where
  "py_bool (PyBool b) = b"
| "py_bool (PyInt i) = (i \<noteq> 0)"
| "py_bool (PyFloat x) = (x \<noteq> 0)"
| "py_bool (PyStr s) = (s \<noteq> [])"

text \<open>
  \<^verbatim>\<open>s.split(sep)\<close> for a one-character separator: the pieces between the separators,
  empty pieces kept, so the empty string splits into one empty piece.
\<close>

fun split_on :: "char \<Rightarrow> string \<Rightarrow> string list" where
  "split_on sep [] = [[]]"
| "split_on sep (c # cs) =
     (if c = sep then [] # split_on sep cs
      else (case split_on sep cs of
              [] \<Rightarrow> [[c]]
            | w # ws \<Rightarrow> (c # w) # ws))"

text \<open>\<^verbatim>\<open>v.split(',')\<close> on a value that is not a string raises AttributeError.\<close>

fun py_split :: "pyval \<Rightarrow> char \<Rightarrow> py_error + string list" where
  "py_split (PyStr s) sep = Inr (split_on sep s)"
| "py_split _ sep = Inl AttributeError"

section \<open>The sqlite store\<close>

text \<open>
  The store has the two tables the module's header comment names.  Their columns and
  the storage class of each column are the ones the specification fixes; a table is the
  list of its rows in store order.
\<close>

record Expression_row =
  e_id :: string
  e_name :: string
  e_feature_id :: string
  e_rna_quantification_id :: string
  e_expression :: real
  e_is_normalized :: int
  e_raw_read_count :: real
  e_score :: real
  e_units :: int
  e_conf_low :: real
  e_conf_hi :: real

record RnaQuantification_row =
  q_id :: string
  q_name :: string
  q_description :: string
  q_feature_set_ids :: string
  q_read_group_ids :: string
  q_programs :: string

record database =
  Expression :: "Expression_row list"
  RnaQuantification :: "RnaQuantification_row list"

text \<open>
  What \<^verbatim>\<open>SELECT *\<close> delivers for a row is an \<^verbatim>\<open>sqlite3.Row\<close>: the column names
  (\<^verbatim>\<open>row.keys()\<close>) paired with the values, in column order.
\<close>

type_synonym sqlite3_Row = "(string \<times> pyval) list"

definition Expression_columns :: "string list" where
  "Expression_columns =
     [''id'', ''name'', ''feature_id'', ''rna_quantification_id'', ''expression'',
      ''is_normalized'', ''raw_read_count'', ''score'', ''units'', ''conf_low'', ''conf_hi'']"

definition Expression_Row :: "Expression_row \<Rightarrow> sqlite3_Row" where
  "Expression_Row r =
     [(''id'', PyStr (e_id r)),
      (''name'', PyStr (e_name r)),
      (''feature_id'', PyStr (e_feature_id r)),
      (''rna_quantification_id'', PyStr (e_rna_quantification_id r)),
      (''expression'', PyFloat (e_expression r)),
      (''is_normalized'', PyInt (e_is_normalized r)),
      (''raw_read_count'', PyFloat (e_raw_read_count r)),
      (''score'', PyFloat (e_score r)),
      (''units'', PyInt (e_units r)),
      (''conf_low'', PyFloat (e_conf_low r)),
      (''conf_hi'', PyFloat (e_conf_hi r))]"

definition RnaQuantification_columns :: "string list" where
  "RnaQuantification_columns =
     [''id'', ''name'', ''description'', ''feature_set_ids'', ''read_group_ids'', ''programs'']"

definition RnaQuantification_Row :: "RnaQuantification_row \<Rightarrow> sqlite3_Row" where
  "RnaQuantification_Row r =
     [(''id'', PyStr (q_id r)),
      (''name'', PyStr (q_name r)),
      (''description'', PyStr (q_description r)),
      (''feature_set_ids'', PyStr (q_feature_set_ids r)),
      (''read_group_ids'', PyStr (q_read_group_ids r)),
      (''programs'', PyStr (q_programs r))]"

subsection \<open>The statements the module builds\<close>

text \<open>
  The module builds its SQL text by concatenation and collects the values for the
  \<^verbatim>\<open>?\<close> placeholders in a tuple.  A statement is kept here as the pieces the module
  concatenates: the table of \<^verbatim>\<open>SELECT * FROM table\<close>, the conditions of the
  \<^verbatim>\<open>WHERE\<close> clause joined by \<^verbatim>\<open>AND\<close>, and the limits clause.
  \<^item> \<open>ColEq c\<close> is \<^verbatim>\<open>c = ?\<close>,
  \<^item> \<open>ColGe c\<close> is \<^verbatim>\<open>c >= ?\<close>,
  \<^item> \<open>ColIn c n\<close> is \<^verbatim>\<open>c in (?,...,?)\<close> with \<open>n\<close> placeholders.
\<close>

datatype sql_cond = ColEq string | ColGe string | ColIn string nat

fun cond_column :: "sql_cond \<Rightarrow> string" where
  "cond_column (ColEq c) = c"
| "cond_column (ColGe c) = c"
| "cond_column (ColIn c n) = c"

fun placeholders :: "sql_cond \<Rightarrow> nat" where
  "placeholders (ColEq c) = 1"
| "placeholders (ColGe c) = 1"
| "placeholders (ColIn c n) = n"

record limits =
  lim_offset :: nat
  lim_count :: "nat option"

record sql_select =
  sel_table :: string
  sel_where :: "sql_cond list"
  sel_limits :: limits

text \<open>
  Modelled from the spec: \<^verbatim>\<open>sqliteBackend.limitsSql\<close> is not under src/.  The
  specification gives the clause it appends as \<^verbatim>\<open>LIMIT pageSize OFFSET pageToken\<close>,
  where the page token is a zero-based row offset, the page size an absolute row cap,
  and an unset page size means no limit.
\<close>

definition limitsSql :: "nat \<Rightarrow> nat option \<Rightarrow> limits" where
  "limitsSql pageToken pageSize = \<lparr>lim_offset = pageToken, lim_count = pageSize\<rparr>"

subsection \<open>Running a statement\<close>

text \<open>
  sqlite compares two numbers by value and two texts bytewise; a number sorts before
  any text.  A Python bool is bound as the integer 0 or 1.
\<close>

fun sql_num :: "pyval \<Rightarrow> real option" where
  "sql_num (PyBool b) = Some (if b then 1 else 0)"
| "sql_num (PyInt i) = Some (of_int i)"
| "sql_num (PyFloat x) = Some x"
| "sql_num (PyStr s) = None"

fun sql_text :: "pyval \<Rightarrow> string" where
  "sql_text (PyStr s) = s"
| "sql_text _ = []"

fun bytes_ge :: "string \<Rightarrow> string \<Rightarrow> bool" where
  "bytes_ge s [] = True"
| "bytes_ge [] (b # bs) = False"
| "bytes_ge (a # as) (b # bs) =
     (if a = b then bytes_ge as bs else (of_char b :: nat) < of_char a)"

definition sql_eq :: "pyval \<Rightarrow> pyval \<Rightarrow> bool" where
  "sql_eq a b =
     (case (sql_num a, sql_num b) of
        (Some x, Some y) \<Rightarrow> x = y
      | (None, None) \<Rightarrow> sql_text a = sql_text b
      | _ \<Rightarrow> False)"

definition sql_ge :: "pyval \<Rightarrow> pyval \<Rightarrow> bool" where
  "sql_ge a b =
     (case (sql_num a, sql_num b) of
        (Some x, Some y) \<Rightarrow> y \<le> x
      | (None, None) \<Rightarrow> bytes_ge (sql_text a) (sql_text b)
      | (None, Some y) \<Rightarrow> True
      | (Some x, None) \<Rightarrow> False)"

text \<open>
  The placeholders are bound left to right from the argument tuple; a tuple that is too
  short or too long is refused (\<^verbatim>\<open>sqlite3.ProgrammingError\<close>).
\<close>

fun bind_args :: "sql_cond list \<Rightarrow> pyval list \<Rightarrow> (sql_cond \<times> pyval list) list option" where
  "bind_args [] sql_args = (case sql_args of [] \<Rightarrow> Some [] | a # as \<Rightarrow> None)"
| "bind_args (c # cs) sql_args =
     (if length sql_args < placeholders c then None
      else (case bind_args cs (drop (placeholders c) sql_args) of
              None \<Rightarrow> None
            | Some bs \<Rightarrow> Some ((c, take (placeholders c) sql_args) # bs)))"

fun cond_holds :: "sqlite3_Row \<Rightarrow> sql_cond \<times> pyval list \<Rightarrow> bool" where
  "cond_holds row (ColEq c, vs) =
     (case map_of row c of
        None \<Rightarrow> False
      | Some v \<Rightarrow> (case vs of [] \<Rightarrow> False | a # as \<Rightarrow> sql_eq v a))"
| "cond_holds row (ColGe c, vs) =
     (case map_of row c of
        None \<Rightarrow> False
      | Some v \<Rightarrow> (case vs of [] \<Rightarrow> False | a # as \<Rightarrow> sql_ge v a))"
| "cond_holds row (ColIn c n, vs) =
     (case map_of row c of
        None \<Rightarrow> False
      | Some v \<Rightarrow> list_ex (sql_eq v) vs)"

definition apply_limits :: "limits \<Rightarrow> 'a list \<Rightarrow> 'a list" where
  "apply_limits l rows =
     (case lim_count l of
        None \<Rightarrow> drop (lim_offset l) rows
      | Some k \<Rightarrow> take k (drop (lim_offset l) rows))"

definition table_of :: "database \<Rightarrow> string \<Rightarrow> (string list \<times> sqlite3_Row list) option" where
  "table_of db t =
     (if t = ''Expression'' then Some (Expression_columns, map Expression_Row (Expression db))
      else if t = ''RnaQuantification''
      then Some (RnaQuantification_columns, map RnaQuantification_Row (RnaQuantification db))
      else None)"

text \<open>
  \<^verbatim>\<open>self._dbconn.execute(sql, sql_args)\<close> followed by \<^verbatim>\<open>fetchall()\<close>: the rows of
  the table, in store order, that satisfy every condition, cut by the limits clause.  An
  unknown table or column is an \<^verbatim>\<open>sqlite3.OperationalError\<close>.
\<close>

definition execute :: "database \<Rightarrow> sql_select \<Rightarrow> pyval list \<Rightarrow> py_error + sqlite3_Row list" where
  "execute db sql sql_args =
     (case table_of db (sel_table sql) of
        None \<Rightarrow> Inl sqlite3_OperationalError
      | Some (columns, rows) \<Rightarrow>
          if \<not> list_all (\<lambda>c. cond_column c \<in> set columns) (sel_where sql)
          then Inl sqlite3_OperationalError
          else (case bind_args (sel_where sql) sql_args of
                  None \<Rightarrow> Inl sqlite3_ProgrammingError
                | Some bound \<Rightarrow>
                    Inr (apply_limits (sel_limits sql)
                          (filter (\<lambda>row. list_all (cond_holds row) bound) rows))))"

definition fetchall :: "sqlite3_Row list \<Rightarrow> sqlite3_Row list" where
  "fetchall rows = rows"

definition fetchone :: "sqlite3_Row list \<Rightarrow> sqlite3_Row option" where
  "fetchone rows = (case rows of [] \<Rightarrow> None | row # rest \<Rightarrow> Some row)"

text \<open>
  Modelled from the spec: \<^verbatim>\<open>sqliteBackend.sqliteRow2Dict\<close> and
  \<^verbatim>\<open>sqliteBackend.sqliteRows2dicts\<close> are not under src/.  They are the row-to-mapping
  conversion: the dictionary of a row maps each column name to the row's value.  Asked
  for the dictionary of \<^verbatim>\<open>None\<close> (what \<^verbatim>\<open>fetchone()\<close> gives when no row is left),
  the conversion raises the AttributeError that the callers under src/ catch.
\<close>

definition sqliteRow2Dict :: "sqlite3_Row option \<Rightarrow> py_error + dict" where
  "sqliteRow2Dict row = (case row of None \<Rightarrow> Inl AttributeError | Some r \<Rightarrow> Inr (map_of r))"

definition sqliteRows2dicts :: "sqlite3_Row list \<Rightarrow> py_error + dict list" where
  "sqliteRows2dicts rows = comprehension (\<lambda>row. sqliteRow2Dict (Some row)) rows"

section \<open>The data model\<close>

text \<open>
  Modelled from the spec: \<^verbatim>\<open>datamodel.DatamodelObject\<close> (the base class with
  \<^verbatim>\<open>getId\<close> and \<^verbatim>\<open>getLocalId\<close>) is not under src/.  A node has an owning parent
  and a local id, and its compound id is every ancestor's local id plus its own, in
  root-to-leaf order.  The compound id is kept as that sequence of segments; its
  encoding into one token is not modelled.  Of the parent, a node keeps the compound id.
\<close>

record DatamodelObject =
  parentContainer :: "pyval list"
  localId :: pyval

definition getId :: "'a DatamodelObject_scheme \<Rightarrow> pyval list" where
  "getId self = parentContainer self @ [localId self]"

definition getLocalId :: "'a DatamodelObject_scheme \<Rightarrow> pyval" where
  "getLocalId self = localId self"

subsection \<open>ExpressionLevel\<close>

record AbstractExpressionLevel = DatamodelObject +
  el_expression :: pyval
  el_featureId :: pyval
  el_isNormalized :: pyval
  el_rawReadCount :: pyval
  el_score :: pyval
  el_units :: pyval
  el_name :: pyval
  el_confIntervalLow :: pyval
  el_confIntervalHigh :: pyval

definition AbstractExpressionLevel_init ::
  "'a DatamodelObject_scheme \<Rightarrow> pyval \<Rightarrow> AbstractExpressionLevel" where
  "AbstractExpressionLevel_init parent lid =
     \<lparr>parentContainer = getId parent, localId = lid,
      el_expression = PyFloat 0,
      el_featureId = PyStr [],
      el_isNormalized = PyStr [],
      el_rawReadCount = PyFloat 0,
      el_score = PyFloat 0,
      el_units = PyInt 0,
      el_name = lid,
      el_confIntervalLow = PyFloat 0,
      el_confIntervalHigh = PyFloat 0\<rparr>"

text \<open>The transfer object \<^verbatim>\<open>protocol.ExpressionLevel\<close>, a plain struct of fields.\<close>

record protocol_ExpressionLevel =
  pe_id :: "pyval list"
  pe_name :: pyval
  pe_feature_id :: pyval
  pe_rna_quantification_id :: "pyval list"
  pe_raw_read_count :: pyval
  pe_expression :: pyval
  pe_is_normalized :: pyval
  pe_units :: pyval
  pe_score :: pyval
  pe_conf_interval_low :: pyval
  pe_conf_interval_high :: pyval

definition toProtocolElement :: "AbstractExpressionLevel \<Rightarrow> protocol_ExpressionLevel" where
  "toProtocolElement self =
     \<lparr>pe_id = getId self,
      pe_name = el_name self,
      pe_feature_id = el_featureId self,
      pe_rna_quantification_id = parentContainer self,
      pe_raw_read_count = el_rawReadCount self,
      pe_expression = el_expression self,
      pe_is_normalized = el_isNormalized self,
      pe_units = el_units self,
      pe_score = el_score self,
      pe_conf_interval_low = el_confIntervalLow self,
      pe_conf_interval_high = el_confIntervalHigh self\<rparr>"

text \<open>
  \<^verbatim>\<open>ExpressionLevel.__init__(self, parentContainer, record)\<close>: the base initialiser
  with \<^verbatim>\<open>record["id"]\<close> as local id, then one assignment per attribute, each reading
  a key of the dictionary, in the order of the source.
\<close>

definition ExpressionLevel_init ::
  "'a DatamodelObject_scheme \<Rightarrow> dict \<Rightarrow> py_error + AbstractExpressionLevel" where
  "ExpressionLevel_init parent record =
     pbind (getitem record ''id'') (\<lambda>lid.
     let self = AbstractExpressionLevel_init parent lid in
     pbind (getitem record ''expression'') (\<lambda>v.
     let self = self\<lparr>el_expression := v\<rparr> in
     pbind (getitem record ''id'') (\<lambda>v.
     let self = self\<lparr>el_featureId := v\<rparr> in
     pbind (getitem record ''is_normalized'') (\<lambda>v.
     let self = self\<lparr>el_isNormalized := PyBool (py_bool v)\<rparr> in
     pbind (getitem record ''raw_read_count'') (\<lambda>v.
     let self = self\<lparr>el_rawReadCount := v\<rparr> in
     pbind (getitem record ''score'') (\<lambda>v.
     let self = self\<lparr>el_score := v\<rparr> in
     pbind (getitem record ''units'') (\<lambda>v.
     let self = self\<lparr>el_units := v\<rparr> in
     pbind (getitem record ''name'') (\<lambda>v.
     let self = self\<lparr>el_name := v\<rparr> in
     pbind (getitem record ''conf_low'') (\<lambda>v.
     let self = self\<lparr>el_confIntervalLow := v\<rparr> in
     pbind (getitem record ''conf_hi'') (\<lambda>v.
     let self = self\<lparr>el_confIntervalHigh := v\<rparr> in
     Inr self))))))))))"

subsection \<open>RnaQuantification\<close>

record AbstractRNAQuantification = DatamodelObject +
  rq_featureSetIds :: "string list"
  rq_description :: pyval
  rq_name :: pyval
  rq_readGroupIds :: "string list"
  rq_programs :: "pyval list"

definition AbstractRNAQuantification_init ::
  "'a DatamodelObject_scheme \<Rightarrow> pyval \<Rightarrow> AbstractRNAQuantification" where
  "AbstractRNAQuantification_init parent lid =
     \<lparr>parentContainer = getId parent, localId = lid,
      rq_featureSetIds = [],
      rq_description = PyStr [],
      rq_name = lid,
      rq_readGroupIds = [],
      rq_programs = []\<rparr>"

text \<open>
  \<^verbatim>\<open>addRnaQuantMetadata(self, fields)\<close> assigns the attributes one after the other
  and returns the updated object.  Both branches on \<^verbatim>\<open>fields["programs"]\<close> assign
  the empty list.
\<close>

definition addRnaQuantMetadata ::
  "AbstractRNAQuantification \<Rightarrow> dict \<Rightarrow> py_error + AbstractRNAQuantification" where
  "addRnaQuantMetadata self fields' =
     pbind (getitem fields' ''feature_set_ids'') (\<lambda>v.
     pbind (py_split v CHR '','') (\<lambda>ids.
     let self = self\<lparr>rq_featureSetIds := ids\<rparr> in
     pbind (getitem fields' ''description'') (\<lambda>v.
     let self = self\<lparr>rq_description := v\<rparr> in
     pbind (getitem fields' ''name'') (\<lambda>v.
     let self = self\<lparr>rq_name := v\<rparr> in
     pbind (getitem fields' ''read_group_ids'') (\<lambda>v.
     pbind (if v = PyStr []
            then Inr (self\<lparr>rq_readGroupIds := []\<rparr>)
            else pbind (getitem fields' ''read_group_ids'') (\<lambda>v.
                 pbind (py_split v CHR '','') (\<lambda>ids.
                 Inr (self\<lparr>rq_readGroupIds := ids\<rparr>)))) (\<lambda>self.
     pbind (getitem fields' ''programs'') (\<lambda>v.
     if v = PyStr []
     then Inr (self\<lparr>rq_programs := []\<rparr>)
     else Inr (self\<lparr>rq_programs := []\<rparr>))))))))"

section \<open>SqliteRNABackend\<close>

text \<open>
  The \<^verbatim>\<open>with self._db as dataSource\<close> blocks open the connection and hand it to the
  query methods; the connection is modelled by the database it reads.  The default
  values of the optional parameters are constants of their own.
\<close>

definition pageToken_default :: nat where
  "pageToken_default = 0"

definition pageSize_default :: "nat option" where
  "pageSize_default = None"

definition threshold_default :: real where
  "threshold_default = 0.0"

definition featureIds_default :: "string list" where
  "featureIds_default = []"

definition rnaQuantificationId_default :: string where
  "rnaQuantificationId_default = []"

definition searchRnaQuantificationsInDb ::
  "database \<Rightarrow> nat \<Rightarrow> nat option \<Rightarrow> string \<Rightarrow> py_error + dict list" where
  "searchRnaQuantificationsInDb db pageToken pageSize rnaQuantificationId =
     (let sql = [];
          sql_args = [];
          sql = (if length rnaQuantificationId > 0 then sql @ [ColEq ''id''] else sql);
          sql_args = (if length rnaQuantificationId > 0
                      then sql_args @ [PyStr rnaQuantificationId] else sql_args);
          query = execute db
                    \<lparr>sel_table = ''RnaQuantification'', sel_where = sql,
                     sel_limits = limitsSql pageToken pageSize\<rparr> sql_args
      in pbind query (\<lambda>rows.
           case sqliteRows2dicts (fetchall rows) of
             Inl AttributeError \<Rightarrow> Inl (RnaQuantificationNotFoundException rnaQuantificationId)
           | Inl e \<Rightarrow> Inl e
           | Inr dicts \<Rightarrow> Inr dicts))"

definition getRnaQuantificationById :: "database \<Rightarrow> string \<Rightarrow> py_error + dict" where
  "getRnaQuantificationById db rnaQuantificationId =
     (let sql = [ColEq ''id''];
          query = execute db
                    \<lparr>sel_table = ''RnaQuantification'', sel_where = sql,
                     sel_limits = \<lparr>lim_offset = 0, lim_count = None\<rparr>\<rparr>
                    [PyStr rnaQuantificationId]
      in pbind query (\<lambda>rows.
           case sqliteRow2Dict (fetchone rows) of
             Inl AttributeError \<Rightarrow> Inl (RnaQuantificationNotFoundException rnaQuantificationId)
           | Inl e \<Rightarrow> Inl e
           | Inr d \<Rightarrow> Inr d))"

definition searchExpressionLevelsInDb ::
  "database \<Rightarrow> string \<Rightarrow> string list \<Rightarrow> nat \<Rightarrow> nat option \<Rightarrow> real \<Rightarrow> py_error + dict list" where
  "searchExpressionLevelsInDb db rnaQuantId featureIds pageToken pageSize threshold =
     (let sql = [ColEq ''rna_quantification_id'', ColGe ''expression''];
          sql_args = [PyStr rnaQuantId, PyFloat threshold];
          sql = (if length featureIds > 0
                 then sql @ [ColIn ''feature_id'' (length featureIds)] else sql);
          sql_args = (if length featureIds > 0
                      then sql_args @ map PyStr featureIds else sql_args);
          query = execute db
                    \<lparr>sel_table = ''Expression'', sel_where = sql,
                     sel_limits = limitsSql pageToken pageSize\<rparr> sql_args
      in pbind query (\<lambda>rows. sqliteRows2dicts (fetchall rows)))"

definition getExpressionLevelById :: "database \<Rightarrow> string \<Rightarrow> py_error + dict" where
  "getExpressionLevelById db expressionId =
     (let sql = [ColEq ''id''];
          query = execute db
                    \<lparr>sel_table = ''Expression'', sel_where = sql,
                     sel_limits = \<lparr>lim_offset = 0, lim_count = None\<rparr>\<rparr>
                    [PyStr expressionId]
      in pbind query (\<lambda>rows.
           case sqliteRow2Dict (fetchone rows) of
             Inl AttributeError \<Rightarrow> Inl (ExpressionLevelNotFoundException expressionId)
           | Inl e \<Rightarrow> Inl e
           | Inr d \<Rightarrow> Inr d))"

section \<open>RNASeqResult\<close>

definition getExpressionLevels ::
  "database \<Rightarrow> AbstractRNAQuantification \<Rightarrow> string \<Rightarrow> nat \<Rightarrow> nat option \<Rightarrow> real \<Rightarrow>
     string list \<Rightarrow> py_error + AbstractExpressionLevel list" where
  "getExpressionLevels db self rnaQuantID pageToken pageSize threshold featureIds =
     pbind (searchExpressionLevelsInDb db rnaQuantID featureIds pageToken pageSize threshold)
       (\<lambda>expressionsReturned.
          comprehension (\<lambda>expressionEntry. ExpressionLevel_init self expressionEntry)
            expressionsReturned)"

section \<open>Reference definitions\<close>

text \<open>
  The dictionary the backend returns for a stored row: the row as sqlite delivers it,
  converted by \<open>sqliteRow2Dict\<close>.
\<close>

definition Expression_dict :: "Expression_row \<Rightarrow> dict" where
  "Expression_dict r = map_of (Expression_Row r)"

definition RnaQuantification_dict :: "RnaQuantification_row \<Rightarrow> dict" where
  "RnaQuantification_dict r = map_of (RnaQuantification_Row r)"

text \<open>
  The specification's \<^verbatim>\<open>ScopedList\<close> over the Expression table, in its own words: the
  rows whose scope column equals the scope value, that reach the threshold when one is
  supplied, and whose id is a member of the id-filter set when one is supplied
  (\<open>matching_Expression\<close>, in store order); of these, \<open>pageSize\<close> rows from offset
  \<open>pageToken\<close> on, and all of them from there on when the page size is unset.
\<close>

definition matching_Expression ::
  "database \<Rightarrow> string \<Rightarrow> real option \<Rightarrow> string list option \<Rightarrow> Expression_row list" where
  "matching_Expression db scopeValue thresholdValue idFilterSet =
     filter (\<lambda>r. e_rna_quantification_id r = scopeValue
               \<and> (case thresholdValue of None \<Rightarrow> True | Some t \<Rightarrow> t \<le> e_expression r)
               \<and> (case idFilterSet of None \<Rightarrow> True | Some ids \<Rightarrow> e_feature_id r \<in> set ids))
       (Expression db)"

definition ScopedList_Expression ::
  "database \<Rightarrow> string \<Rightarrow> real option \<Rightarrow> string list option \<Rightarrow> nat \<Rightarrow> nat option \<Rightarrow>
     Expression_row list" where
  "ScopedList_Expression db scopeValue thresholdValue idFilterSet pageToken pageSize =
     (case pageSize of
        None \<Rightarrow> drop pageToken (matching_Expression db scopeValue thresholdValue idFilterSet)
      | Some k \<Rightarrow>
          take k (drop pageToken (matching_Expression db scopeValue thresholdValue idFilterSet)))"

text \<open>
  The rows of the RnaQuantification table that a list query with the id restriction
  \<open>rnaQuantificationId\<close> matches; the empty id restricts nothing.
\<close>

definition matching_RnaQuantification :: "database \<Rightarrow> string \<Rightarrow> RnaQuantification_row list" where
  "matching_RnaQuantification db rnaQuantificationId =
     (if rnaQuantificationId = [] then RnaQuantification db
      else filter (\<lambda>r. q_id r = rnaQuantificationId) (RnaQuantification db))"

text \<open>How a list query names the feature-id filter it was given: the empty list is no filter.\<close>

definition idFilterSet_of :: "string list \<Rightarrow> string list option" where
  "idFilterSet_of featureIds = (if featureIds = [] then None else Some featureIds)"

section \<open>An example store\<close>

text \<open>
  One quantification \<^verbatim>\<open>rq1\<close> with three expression rows: feature \<^verbatim>\<open>f1\<close> with
  expression 2.0, feature \<^verbatim>\<open>f2\<close> with expression 0.1, and feature \<^verbatim>\<open>f3\<close> with the
  negative expression -1.0.
\<close>

definition row_f1 :: Expression_row where
  "row_f1 = \<lparr>e_id = ''e1'', e_name = ''n1'', e_feature_id = ''f1'',
     e_rna_quantification_id = ''rq1'', e_expression = 2, e_is_normalized = 1,
     e_raw_read_count = 10, e_score = 1, e_units = 1, e_conf_low = 1, e_conf_hi = 3\<rparr>"

definition row_f2 :: Expression_row where
  "row_f2 = \<lparr>e_id = ''e2'', e_name = ''n2'', e_feature_id = ''f2'',
     e_rna_quantification_id = ''rq1'', e_expression = 1 / 10, e_is_normalized = 0,
     e_raw_read_count = 4, e_score = 1, e_units = 1, e_conf_low = 0, e_conf_hi = 1\<rparr>"

definition row_f3 :: Expression_row where
  "row_f3 = \<lparr>e_id = ''e3'', e_name = ''n3'', e_feature_id = ''f3'',
     e_rna_quantification_id = ''rq1'', e_expression = - 1, e_is_normalized = 0,
     e_raw_read_count = 0, e_score = 0, e_units = 1, e_conf_low = - 2, e_conf_hi = 0\<rparr>"

definition row_rq1 :: RnaQuantification_row where
  "row_rq1 = \<lparr>q_id = ''rq1'', q_name = ''rq1'', q_description = ''first'',
     q_feature_set_ids = [], q_read_group_ids = [], q_programs = ''p1,p2''\<rparr>"

definition store :: database where
  "store = \<lparr>Expression = [row_f1, row_f2, row_f3], RnaQuantification = [row_rq1]\<rparr>"

definition store_nonneg :: database where
  "store_nonneg = \<lparr>Expression = [row_f1, row_f2], RnaQuantification = [row_rq1]\<rparr>"

definition rq1 :: AbstractRNAQuantification where
  "rq1 = AbstractRNAQuantification_init
           \<lparr>parentContainer = [PyStr ''dataset''], localId = PyStr ''set''\<rparr> (PyStr ''rq1'')"

section \<open>Auxiliary facts\<close>

lemma pbind_Inr [simp]: "pbind (Inr v) f = f v"
  by (simp add: pbind_def)

lemma pbind_Inl [simp]: "pbind (Inl e) f = Inl e"
  by (simp add: pbind_def)

lemma comprehension_total: "comprehension (\<lambda>x. Inr (f x)) xs = Inr (map f xs)"
  by (induction xs) simp_all

lemma comprehension_map: "comprehension f (map g xs) = comprehension (\<lambda>x. f (g x)) xs"
  by (induction xs) (simp_all split: sum.split)

lemma sqliteRows2dicts_eq: "sqliteRows2dicts rows = Inr (map map_of rows)"
  by (simp add: sqliteRows2dicts_def sqliteRow2Dict_def comprehension_total)

lemma Expression_Row_lookup:
  "map_of (Expression_Row r) ''id'' = Some (PyStr (e_id r))"
  "map_of (Expression_Row r) ''name'' = Some (PyStr (e_name r))"
  "map_of (Expression_Row r) ''feature_id'' = Some (PyStr (e_feature_id r))"
  "map_of (Expression_Row r) ''rna_quantification_id'' = Some (PyStr (e_rna_quantification_id r))"
  "map_of (Expression_Row r) ''expression'' = Some (PyFloat (e_expression r))"
  "map_of (Expression_Row r) ''is_normalized'' = Some (PyInt (e_is_normalized r))"
  "map_of (Expression_Row r) ''raw_read_count'' = Some (PyFloat (e_raw_read_count r))"
  "map_of (Expression_Row r) ''score'' = Some (PyFloat (e_score r))"
  "map_of (Expression_Row r) ''units'' = Some (PyInt (e_units r))"
  "map_of (Expression_Row r) ''conf_low'' = Some (PyFloat (e_conf_low r))"
  "map_of (Expression_Row r) ''conf_hi'' = Some (PyFloat (e_conf_hi r))"
  by (simp_all add: Expression_Row_def)

lemma RnaQuantification_Row_lookup:
  "map_of (RnaQuantification_Row r) ''id'' = Some (PyStr (q_id r))"
  "map_of (RnaQuantification_Row r) ''name'' = Some (PyStr (q_name r))"
  "map_of (RnaQuantification_Row r) ''description'' = Some (PyStr (q_description r))"
  "map_of (RnaQuantification_Row r) ''feature_set_ids'' = Some (PyStr (q_feature_set_ids r))"
  "map_of (RnaQuantification_Row r) ''read_group_ids'' = Some (PyStr (q_read_group_ids r))"
  "map_of (RnaQuantification_Row r) ''programs'' = Some (PyStr (q_programs r))"
  by (simp_all add: RnaQuantification_Row_def)

lemma sql_eq_PyStr [simp]: "sql_eq (PyStr a) (PyStr b) = (a = b)"
  by (simp add: sql_eq_def)

lemma sql_ge_PyFloat [simp]: "sql_ge (PyFloat a) (PyFloat b) = (b \<le> a)"
  by (simp add: sql_ge_def)

lemma list_ex_sql_eq_PyStr: "list_ex (sql_eq (PyStr a)) (map PyStr fs) = (a \<in> set fs)"
  by (induction fs) auto

subsection \<open>What the statements of the module select\<close>

lemma execute_Expression_scope_threshold:
  "execute db \<lparr>sel_table = ''Expression'',
       sel_where = [ColEq ''rna_quantification_id'', ColGe ''expression''],
       sel_limits = l\<rparr> [PyStr q, PyFloat t] =
   Inr (map Expression_Row (apply_limits l
     (filter (\<lambda>r. e_rna_quantification_id r = q \<and> t \<le> e_expression r) (Expression db))))"
  by (simp add: execute_def table_of_def Expression_columns_def Expression_Row_lookup
      apply_limits_def filter_map comp_def take_map drop_map split: option.split)

lemma execute_Expression_scope_threshold_in:
  "execute db \<lparr>sel_table = ''Expression'',
       sel_where = [ColEq ''rna_quantification_id'', ColGe ''expression'',
                    ColIn ''feature_id'' (length fs)],
       sel_limits = l\<rparr> ([PyStr q, PyFloat t] @ map PyStr fs) =
   Inr (map Expression_Row (apply_limits l
     (filter (\<lambda>r. e_rna_quantification_id r = q \<and> t \<le> e_expression r \<and> e_feature_id r \<in> set fs)
        (Expression db))))"
  by (simp add: execute_def table_of_def Expression_columns_def Expression_Row_lookup
      apply_limits_def filter_map comp_def take_map drop_map list_ex_sql_eq_PyStr
      split: option.split)

lemma execute_RnaQuantification_all:
  "execute db \<lparr>sel_table = ''RnaQuantification'', sel_where = [], sel_limits = l\<rparr> [] =
   Inr (map RnaQuantification_Row (apply_limits l (RnaQuantification db)))"
  by (simp add: execute_def table_of_def apply_limits_def take_map drop_map
      split: option.split)

lemma execute_RnaQuantification_id:
  "execute db \<lparr>sel_table = ''RnaQuantification'', sel_where = [ColEq ''id''],
       sel_limits = l\<rparr> [PyStr q] =
   Inr (map RnaQuantification_Row (apply_limits l
     (filter (\<lambda>r. q_id r = q) (RnaQuantification db))))"
  by (simp add: execute_def table_of_def RnaQuantification_columns_def
      RnaQuantification_Row_lookup apply_limits_def filter_map comp_def take_map drop_map
      split: option.split)

lemma apply_limits_limitsSql:
  "apply_limits (limitsSql pageToken pageSize) rows =
     (case pageSize of None \<Rightarrow> drop pageToken rows | Some k \<Rightarrow> take k (drop pageToken rows))"
  by (simp add: apply_limits_def limitsSql_def split: option.split)

text \<open>
  The list query over the Expression table returns the dictionaries of the page that
  the specification's \<open>ScopedList_Expression\<close> describes, and raises nothing.
\<close>

lemma searchExpressionLevelsInDb_eq:
  "searchExpressionLevelsInDb db q fids tok sz thr =
     Inr (map Expression_dict
            (ScopedList_Expression db q (Some thr) (idFilterSet_of fids) tok sz))"
proof (cases "fids = []")
  case True
  then show ?thesis
    by (simp add: searchExpressionLevelsInDb_def execute_Expression_scope_threshold
        sqliteRows2dicts_eq fetchall_def apply_limits_limitsSql ScopedList_Expression_def
        matching_Expression_def idFilterSet_of_def Expression_dict_def comp_def
        split: option.split)
next
  case False
  have "execute db \<lparr>sel_table = ''Expression'',
          sel_where = [ColEq ''rna_quantification_id'', ColGe ''expression'']
                        @ [ColIn ''feature_id'' (length fids)],
          sel_limits = limitsSql tok sz\<rparr> ([PyStr q, PyFloat thr] @ map PyStr fids) =
        Inr (map Expression_Row (apply_limits (limitsSql tok sz)
          (filter (\<lambda>r. e_rna_quantification_id r = q \<and> thr \<le> e_expression r
                        \<and> e_feature_id r \<in> set fids) (Expression db))))"
    using execute_Expression_scope_threshold_in [of db fids "limitsSql tok sz" q thr]
    by simp
  with False show ?thesis
    by (simp add: searchExpressionLevelsInDb_def Let_def
        sqliteRows2dicts_eq fetchall_def apply_limits_limitsSql ScopedList_Expression_def
        matching_Expression_def idFilterSet_of_def Expression_dict_def comp_def
        split: option.split)
qed

lemma searchRnaQuantificationsInDb_eq:
  "searchRnaQuantificationsInDb db tok sz rid =
     Inr (map RnaQuantification_dict
            (case sz of
               None \<Rightarrow> drop tok (matching_RnaQuantification db rid)
             | Some k \<Rightarrow> take k (drop tok (matching_RnaQuantification db rid))))"
proof (cases "rid = []")
  case True
  then show ?thesis
    by (simp add: searchRnaQuantificationsInDb_def execute_RnaQuantification_all
        sqliteRows2dicts_eq fetchall_def apply_limits_limitsSql matching_RnaQuantification_def
        RnaQuantification_dict_def comp_def split: option.split)
next
  case False
  then show ?thesis
    by (simp add: searchRnaQuantificationsInDb_def execute_RnaQuantification_id
        sqliteRows2dicts_eq fetchall_def apply_limits_limitsSql matching_RnaQuantification_def
        RnaQuantification_dict_def comp_def split: option.split)
qed

subsection \<open>Hydration of a stored row\<close>

lemma ExpressionLevel_init_row:
  "ExpressionLevel_init parent (Expression_dict r) =
     Inr \<lparr>parentContainer = getId parent, localId = PyStr (e_id r),
          el_expression = PyFloat (e_expression r),
          el_featureId = PyStr (e_id r),
          el_isNormalized = PyBool (e_is_normalized r \<noteq> 0),
          el_rawReadCount = PyFloat (e_raw_read_count r),
          el_score = PyFloat (e_score r),
          el_units = PyInt (e_units r),
          el_name = PyStr (e_name r),
          el_confIntervalLow = PyFloat (e_conf_low r),
          el_confIntervalHigh = PyFloat (e_conf_hi r)\<rparr>"
  by (simp add: ExpressionLevel_init_def Expression_dict_def getitem_def
      Expression_Row_lookup AbstractExpressionLevel_init_def)

lemma getExpressionLevels_eq:
  "getExpressionLevels db self q tok sz thr fids =
     comprehension (ExpressionLevel_init self)
       (map Expression_dict
          (ScopedList_Expression db q (Some thr) (idFilterSet_of fids) tok sz))"
  by (simp add: getExpressionLevels_def searchExpressionLevelsInDb_eq)

lemma comprehension_hydrate:
  "\<exists>els. comprehension (ExpressionLevel_init self) (map Expression_dict rows) = Inr els
         \<and> length els = length rows
         \<and> (\<forall>i<length rows. el_expression (els ! i) = PyFloat (e_expression (rows ! i)))"
proof -
  let ?h = "\<lambda>r. \<lparr>parentContainer = getId self, localId = PyStr (e_id r),
          el_expression = PyFloat (e_expression r),
          el_featureId = PyStr (e_id r),
          el_isNormalized = PyBool (e_is_normalized r \<noteq> 0),
          el_rawReadCount = PyFloat (e_raw_read_count r),
          el_score = PyFloat (e_score r),
          el_units = PyInt (e_units r),
          el_name = PyStr (e_name r),
          el_confIntervalLow = PyFloat (e_conf_low r),
          el_confIntervalHigh = PyFloat (e_conf_hi r)\<rparr>"
  have "comprehension (ExpressionLevel_init self) (map Expression_dict rows) = Inr (map ?h rows)"
    by (simp add: comprehension_map ExpressionLevel_init_row comprehension_total)
  then show ?thesis by simp
qed

subsection \<open>Pages\<close>

lemma page_positions: "take k (drop t xs) = map (\<lambda>i. xs ! i) [t ..< min (t + k) (length xs)]"
proof (rule nth_equalityI)
  show "length (take k (drop t xs)) = length (map (\<lambda>i. xs ! i) [t ..< min (t + k) (length xs)])"
    by (simp add: min_def) arith
next
  fix i
  assume "i < length (take k (drop t xs))"
  then have i: "i < k" "t + i < length xs"
    by auto
  then have "t + i < min (t + k) (length xs)"
    by simp
  then have "[t ..< min (t + k) (length xs)] ! i = t + i" "i < length [t ..< min (t + k) (length xs)]"
    by auto
  with i show "take k (drop t xs) ! i = map (\<lambda>i. xs ! i) [t ..< min (t + k) (length xs)] ! i"
    by simp
qed

section \<open>Claims\<close>

text \<open>
  C1.  The claim: the ExpressionLevel hydrated from an Expression row has as feature id
  the row's \<^verbatim>\<open>feature_id\<close> column, exposed unchanged as the \<^verbatim>\<open>feature_id\<close> field
  of the transfer object.  The initialiser reads \<^verbatim>\<open>record["id"]\<close> for the feature
  id: hydrating the example row with id \<^verbatim>\<open>e1\<close> and feature id \<^verbatim>\<open>f1\<close> succeeds,
  and the transfer object's \<^verbatim>\<open>feature_id\<close> is the row's id \<^verbatim>\<open>e1\<close>, not the
  \<^verbatim>\<open>feature_id\<close> column \<^verbatim>\<open>f1\<close>, the column that the list query filters on.
\<close>

theorem C1_feature_id_is_id_column:
  "(\<exists>el. ExpressionLevel_init rq1 (Expression_dict row_f1) = Inr el
         \<and> el_featureId el = PyStr ''e1''
         \<and> pe_feature_id (toProtocolElement el) = PyStr ''e1''
         \<and> pe_feature_id (toProtocolElement el) \<noteq> PyStr (e_feature_id row_f1))
   \<and> searchExpressionLevelsInDb store ''rq1'' [''f1''] 0 (Some 10) 1 = Inr [Expression_dict row_f1]
   \<and> e_feature_id row_f1 = ''f1''"
proof -
  have "searchExpressionLevelsInDb store ''rq1'' [''f1''] 0 (Some 10) 1 = Inr [Expression_dict row_f1]"
    by (simp add: searchExpressionLevelsInDb_eq ScopedList_Expression_def
        matching_Expression_def idFilterSet_of_def store_def row_f1_def row_f2_def row_f3_def)
  then show ?thesis
    by (simp add: ExpressionLevel_init_row toProtocolElement_def row_f1_def)
qed

text \<open>
  C2.  Called with an empty feature-id filter, \<open>searchExpressionLevelsInDb\<close> returns
  exactly the rows of the query with no feature-id restriction (the specification's
  scoped list with the id filter absent); called with a non-empty filter, every
  dictionary it returns has a \<^verbatim>\<open>feature_id\<close> that is a member of the filter.
\<close>

theorem C2_feature_id_filter:
  "searchExpressionLevelsInDb db rnaQuantId [] pageToken pageSize threshold =
     Inr (map Expression_dict
            (ScopedList_Expression db rnaQuantId (Some threshold) None pageToken pageSize))
   \<and> (featureIds \<noteq> [] \<longrightarrow>
        (\<exists>dicts. searchExpressionLevelsInDb db rnaQuantId featureIds pageToken pageSize threshold
                   = Inr dicts
              \<and> (\<forall>d \<in> set dicts. \<exists>f \<in> set featureIds. d ''feature_id'' = Some (PyStr f))))"
proof (intro conjI impI)
  show "searchExpressionLevelsInDb db rnaQuantId [] pageToken pageSize threshold =
     Inr (map Expression_dict
            (ScopedList_Expression db rnaQuantId (Some threshold) None pageToken pageSize))"
    by (simp add: searchExpressionLevelsInDb_eq idFilterSet_of_def)
next
  assume ne: "featureIds \<noteq> []"
  let ?rows = "ScopedList_Expression db rnaQuantId (Some threshold) (Some featureIds)
                 pageToken pageSize"
  have sub: "set ?rows \<subseteq> set (matching_Expression db rnaQuantId (Some threshold) (Some featureIds))"
    by (auto simp: ScopedList_Expression_def split: option.split dest: in_set_takeD in_set_dropD)
  have "\<forall>r \<in> set ?rows. e_feature_id r \<in> set featureIds"
    using sub by (auto simp: matching_Expression_def)
  then have "\<forall>d \<in> set (map Expression_dict ?rows).
               \<exists>f \<in> set featureIds. d ''feature_id'' = Some (PyStr f)"
    by (auto simp: Expression_dict_def Expression_Row_lookup)
  with ne show "\<exists>dicts. searchExpressionLevelsInDb db rnaQuantId featureIds pageToken pageSize
                   threshold = Inr dicts
              \<and> (\<forall>d \<in> set dicts. \<exists>f \<in> set featureIds. d ''feature_id'' = Some (PyStr f))"
    by (simp add: searchExpressionLevelsInDb_eq idFilterSet_of_def)
qed

theorem C2_feature_id_filter_witness:
  "searchExpressionLevelsInDb store ''rq1'' [] 0 None 0 =
     Inr [Expression_dict row_f1, Expression_dict row_f2]
   \<and> [''f2''] \<noteq> ([] :: string list)
   \<and> searchExpressionLevelsInDb store ''rq1'' [''f2''] 0 None 0 = Inr [Expression_dict row_f2]
   \<and> Expression_dict row_f2 ''feature_id'' = Some (PyStr ''f2'')"
proof -
  have a: "ScopedList_Expression store ''rq1'' (Some 0) None 0 None = [row_f1, row_f2]"
    by (simp add: ScopedList_Expression_def matching_Expression_def store_def
        row_f1_def row_f2_def row_f3_def)
  have b: "searchExpressionLevelsInDb store ''rq1'' [''f2''] 0 None 0 = Inr [Expression_dict row_f2]"
    by (simp add: searchExpressionLevelsInDb_eq ScopedList_Expression_def
        matching_Expression_def idFilterSet_of_def store_def row_f1_def row_f2_def row_f3_def)
  have c: "Expression_dict row_f2 ''feature_id'' = Some (PyStr ''f2'')"
    by (simp add: Expression_dict_def Expression_Row_lookup row_f2_def)
  from C2_feature_id_filter [of store "''rq1''" 0 None 0 "[''f2'']"] a b c
  show ?thesis by simp
qed

text \<open>
  C3.  With \<open>N\<close> rows matching the scope and the filters, a list query with page size
  \<open>k\<close> and page token \<open>t\<close> returns exactly the matching rows at the positions from
  \<open>t\<close> up to, and not including, \<open>t + k\<close> (as far as there are rows), in store order; a
  page token of \<open>N\<close> or more gives the empty result and no error; and an unset page size
  gives all matching rows from position \<open>t\<close> on.  This holds for the list query over the
  Expression table and for the one over the RnaQuantification table.
\<close>

theorem C3_pagination:
  "(let M = matching_Expression db rnaQuantId (Some threshold) (idFilterSet_of featureIds) in
      searchExpressionLevelsInDb db rnaQuantId featureIds t (Some k) threshold =
        Inr (map Expression_dict (map (\<lambda>i. M ! i) [t ..< min (t + k) (length M)]))
      \<and> (length M \<le> t \<longrightarrow>
           searchExpressionLevelsInDb db rnaQuantId featureIds t pageSize threshold = Inr [])
      \<and> searchExpressionLevelsInDb db rnaQuantId featureIds t None threshold =
          Inr (map Expression_dict (drop t M)))
   \<and> (let M = matching_RnaQuantification db rnaQuantificationId in
      searchRnaQuantificationsInDb db t (Some k) rnaQuantificationId =
        Inr (map RnaQuantification_dict (map (\<lambda>i. M ! i) [t ..< min (t + k) (length M)]))
      \<and> (length M \<le> t \<longrightarrow>
           searchRnaQuantificationsInDb db t pageSize rnaQuantificationId = Inr [])
      \<and> searchRnaQuantificationsInDb db t None rnaQuantificationId =
          Inr (map RnaQuantification_dict (drop t M)))"
  by (simp add: Let_def searchExpressionLevelsInDb_eq searchRnaQuantificationsInDb_eq
      ScopedList_Expression_def page_positions split: option.split)

theorem C3_pagination_witness:
  "searchExpressionLevelsInDb store ''rq1'' [] 1 (Some 1) 0 = Inr [Expression_dict row_f2]
   \<and> searchExpressionLevelsInDb store ''rq1'' [] 2 (Some 1) 0 = Inr []
   \<and> searchExpressionLevelsInDb store ''rq1'' [] 1 None 0 = Inr [Expression_dict row_f2]
   \<and> searchRnaQuantificationsInDb store 0 (Some 1) [] = Inr [RnaQuantification_dict row_rq1]
   \<and> searchRnaQuantificationsInDb store 1 (Some 1) [] = Inr []
   \<and> searchRnaQuantificationsInDb store 0 None [] = Inr [RnaQuantification_dict row_rq1]"
proof -
  have M: "matching_Expression store ''rq1'' (Some 0) (idFilterSet_of []) = [row_f1, row_f2]"
    by (simp add: matching_Expression_def idFilterSet_of_def store_def
        row_f1_def row_f2_def row_f3_def)
  have Q: "matching_RnaQuantification store [] = [row_rq1]"
    by (simp add: matching_RnaQuantification_def store_def)
  have u: "[1 ..< 2] = [1::nat]" "[0 ..< 1] = [0::nat]"
    by (simp_all add: upt_rec)
  from C3_pagination [of store "''rq1''" 0 "[]" 1 1 "Some 1" "[]"]
    C3_pagination [of store "''rq1''" 0 "[]" 2 1 "Some 1" "[]"]
    C3_pagination [of store "''rq1''" 0 "[]" 0 1 "Some 1" "[]"]
    C3_pagination [of store "''rq1''" 0 "[]" 1 1 "Some 1" "[]"]
  show ?thesis
    by (simp add: Let_def M Q u)
qed

text \<open>
  C4.  For every threshold \<open>t\<close>, \<open>getExpressionLevels\<close> returns (it raises nothing), and
  no ExpressionLevel it returns has an expression value strictly less than \<open>t\<close>.
\<close>

theorem C4_threshold:
  "\<exists>els. getExpressionLevels db self rnaQuantID pageToken pageSize t featureIds = Inr els
         \<and> (\<forall>e \<in> set els. \<exists>v. el_expression e = PyFloat v \<and> \<not> v < t)"
proof -
  let ?rows = "ScopedList_Expression db rnaQuantID (Some t) (idFilterSet_of featureIds)
                 pageToken pageSize"
  obtain els where els:
    "comprehension (ExpressionLevel_init self) (map Expression_dict ?rows) = Inr els"
    "length els = length ?rows"
    "\<forall>i<length ?rows. el_expression (els ! i) = PyFloat (e_expression (?rows ! i))"
    using comprehension_hydrate [of self ?rows] by blast
  have sub: "set ?rows \<subseteq> set (matching_Expression db rnaQuantID (Some t) (idFilterSet_of featureIds))"
    by (auto simp: ScopedList_Expression_def split: option.split dest: in_set_takeD in_set_dropD)
  have ge: "\<forall>r \<in> set ?rows. t \<le> e_expression r"
    using sub by (auto simp: matching_Expression_def)
  have "\<exists>v. el_expression e = PyFloat v \<and> \<not> v < t" if "e \<in> set els" for e
  proof -
    from that obtain i where i: "i < length els" "els ! i = e"
      by (auto simp: in_set_conv_nth)
    with els have "el_expression e = PyFloat (e_expression (?rows ! i))"
      by auto
    moreover from i els ge have "t \<le> e_expression (?rows ! i)"
      by (metis nth_mem)
    ultimately show ?thesis by auto
  qed
  with els(1) show ?thesis
    by (auto simp: getExpressionLevels_eq)
qed

theorem C4_threshold_witness:
  "\<exists>els. getExpressionLevels store rq1 ''rq1'' 0 None (1 / 2) [] = Inr els
         \<and> list_all (\<lambda>e. \<exists>v. el_expression e = PyFloat v \<and> \<not> v < 1 / 2) els
         \<and> length els = 1"
proof -
  have "ScopedList_Expression store ''rq1'' (Some (1 / 2)) (idFilterSet_of []) 0 None = [row_f1]"
    by (simp add: ScopedList_Expression_def matching_Expression_def idFilterSet_of_def
        store_def row_f1_def row_f2_def row_f3_def)
  then have "\<exists>e. getExpressionLevels store rq1 ''rq1'' 0 None (1 / 2) [] = Inr [e]"
    by (simp add: getExpressionLevels_eq ExpressionLevel_init_row)
  with C4_threshold [of store rq1 "''rq1''" 0 None "1 / 2" "[]"] show ?thesis
    by (auto simp: list_all_iff)
qed

text \<open>
  C5.  The claim: with the threshold left at its default, \<open>searchExpressionLevelsInDb\<close>
  returns the same rows as the same query with the threshold clause omitted, for every
  stored expression value.  The statement always carries \<^verbatim>\<open>expression >= ?\<close>, bound
  to the default 0.0, so a row with a negative expression is dropped: on the example
  store the default query returns two rows and the query without threshold three.
\<close>

theorem C5_default_threshold_counterexample:
  "searchExpressionLevelsInDb store ''rq1'' featureIds_default pageToken_default
     pageSize_default threshold_default
   \<noteq> Inr (map Expression_dict
           (ScopedList_Expression store ''rq1'' None (idFilterSet_of featureIds_default)
              pageToken_default pageSize_default))"
  by (simp add: searchExpressionLevelsInDb_eq ScopedList_Expression_def
      matching_Expression_def idFilterSet_of_def featureIds_default_def pageToken_default_def
      pageSize_default_def threshold_default_def store_def row_f1_def row_f2_def row_f3_def)

text \<open>
  C5, amended.  With the threshold left at its default, \<open>searchExpressionLevelsInDb\<close>
  filters at 0.0: it returns the rows of the scoped list with threshold 0.0; and these
  are the rows of the same query with the threshold clause omitted whenever no stored
  expression value of that quantification is negative.
\<close>

theorem C5_default_threshold:
  "searchExpressionLevelsInDb db rnaQuantId featureIds pageToken pageSize threshold_default =
     Inr (map Expression_dict
            (ScopedList_Expression db rnaQuantId (Some 0) (idFilterSet_of featureIds)
               pageToken pageSize))
   \<and> ((\<forall>r \<in> set (Expression db). e_rna_quantification_id r = rnaQuantId \<longrightarrow> 0 \<le> e_expression r)
        \<longrightarrow> searchExpressionLevelsInDb db rnaQuantId featureIds pageToken pageSize
              threshold_default =
            Inr (map Expression_dict
                   (ScopedList_Expression db rnaQuantId None (idFilterSet_of featureIds)
                      pageToken pageSize)))"
proof (intro conjI impI)
  show zero: "searchExpressionLevelsInDb db rnaQuantId featureIds pageToken pageSize
      threshold_default =
     Inr (map Expression_dict
            (ScopedList_Expression db rnaQuantId (Some 0) (idFilterSet_of featureIds)
               pageToken pageSize))"
    by (simp add: searchExpressionLevelsInDb_eq threshold_default_def)
  assume nonneg: "\<forall>r \<in> set (Expression db). e_rna_quantification_id r = rnaQuantId
                    \<longrightarrow> 0 \<le> e_expression r"
  have "matching_Expression db rnaQuantId (Some 0) (idFilterSet_of featureIds) =
        matching_Expression db rnaQuantId None (idFilterSet_of featureIds)"
    unfolding matching_Expression_def
    by (rule filter_cong) (use nonneg in auto)
  then have "ScopedList_Expression db rnaQuantId (Some 0) (idFilterSet_of featureIds)
               pageToken pageSize =
             ScopedList_Expression db rnaQuantId None (idFilterSet_of featureIds)
               pageToken pageSize"
    by (simp add: ScopedList_Expression_def split: option.split)
  with zero show "searchExpressionLevelsInDb db rnaQuantId featureIds pageToken pageSize
      threshold_default =
     Inr (map Expression_dict
            (ScopedList_Expression db rnaQuantId None (idFilterSet_of featureIds)
               pageToken pageSize))"
    by simp
qed

theorem C5_default_threshold_witness:
  "list_all (\<lambda>r. 0 \<le> e_expression r) (Expression store_nonneg)
   \<and> searchExpressionLevelsInDb store_nonneg ''rq1'' [] 0 None threshold_default =
       Inr (map Expression_dict (ScopedList_Expression store_nonneg ''rq1'' None None 0 None))
   \<and> ScopedList_Expression store_nonneg ''rq1'' None None 0 None = [row_f1, row_f2]"
proof -
  have a: "\<forall>r \<in> set (Expression store_nonneg).
             e_rna_quantification_id r = ''rq1'' \<longrightarrow> 0 \<le> e_expression r"
    by (simp add: store_nonneg_def row_f1_def row_f2_def)
  have b: "list_all (\<lambda>r. 0 \<le> e_expression r) (Expression store_nonneg)"
    by (simp add: store_nonneg_def row_f1_def row_f2_def)
  have c: "ScopedList_Expression store_nonneg ''rq1'' None None 0 None = [row_f1, row_f2]"
    by (simp add: ScopedList_Expression_def matching_Expression_def store_nonneg_def
        row_f1_def row_f2_def)
  have d: "ScopedList_Expression store_nonneg ''rq1'' (Some 0) None 0 None = [row_f1, row_f2]"
    by (simp add: ScopedList_Expression_def matching_Expression_def store_nonneg_def
        row_f1_def row_f2_def)
  from C5_default_threshold [of store_nonneg "''rq1''" "[]" 0 None] a b c d show ?thesis
    by (simp add: idFilterSet_of_def)
qed

subsection \<open>The point lookup\<close>

lemma getRnaQuantificationById_eq:
  "getRnaQuantificationById db rid =
     (case filter (\<lambda>r. q_id r = rid) (RnaQuantification db) of
        [] \<Rightarrow> Inl (RnaQuantificationNotFoundException rid)
      | r # rest \<Rightarrow> Inr (RnaQuantification_dict r))"
  by (simp add: getRnaQuantificationById_def execute_RnaQuantification_id apply_limits_def
      fetchone_def sqliteRow2Dict_def RnaQuantification_dict_def split: list.split)

text \<open>
  C6.  For an id that no row of the RnaQuantification table has,
  \<open>getRnaQuantificationById\<close> raises RnaQuantificationNotFoundException, and the
  exception carries that id; no dictionary is returned.
\<close>

theorem C6_not_found:
  "\<forall>r \<in> set (RnaQuantification db). q_id r \<noteq> rnaQuantificationId \<Longrightarrow>
   getRnaQuantificationById db rnaQuantificationId =
     Inl (RnaQuantificationNotFoundException rnaQuantificationId)"
proof -
  assume "\<forall>r \<in> set (RnaQuantification db). q_id r \<noteq> rnaQuantificationId"
  then have "filter (\<lambda>r. q_id r = rnaQuantificationId) (RnaQuantification db) = []"
    by (simp add: filter_empty_conv)
  then show ?thesis
    by (simp add: getRnaQuantificationById_eq)
qed

theorem C6_not_found_witness:
  "getRnaQuantificationById store ''rq2'' = Inl (RnaQuantificationNotFoundException ''rq2'')
   \<and> (\<exists>d. getRnaQuantificationById store ''rq1'' = Inr d)"
proof -
  have "\<forall>r \<in> set (RnaQuantification store). q_id r \<noteq> ''rq2''"
    by (simp add: store_def row_rq1_def)
  from C6_not_found [OF this] show ?thesis
    by (simp add: getRnaQuantificationById_eq store_def row_rq1_def)
qed

text \<open>
  C7.  Hydrating an Expression row converts the stored integer \<^verbatim>\<open>is_normalized\<close> to
  a boolean: the flag of the ExpressionLevel is true exactly when the column is not
  zero, so 1 hydrates to true and 0 hydrates to false.
\<close>

theorem C7_is_normalized:
  "\<exists>el. ExpressionLevel_init parent (Expression_dict r) = Inr el
        \<and> el_isNormalized el = PyBool (e_is_normalized r \<noteq> 0)
        \<and> (e_is_normalized r = 1 \<longrightarrow> el_isNormalized el = PyBool True)
        \<and> (e_is_normalized r = 0 \<longrightarrow> el_isNormalized el = PyBool False)"
  by (simp add: ExpressionLevel_init_row)

theorem C7_is_normalized_witness:
  "e_is_normalized row_f1 = 1
   \<and> (\<exists>el. ExpressionLevel_init rq1 (Expression_dict row_f1) = Inr el
          \<and> el_isNormalized el = PyBool True)
   \<and> e_is_normalized row_f2 = 0
   \<and> (\<exists>el. ExpressionLevel_init rq1 (Expression_dict row_f2) = Inr el
          \<and> el_isNormalized el = PyBool False)"
proof -
  have a: "e_is_normalized row_f1 = 1" "e_is_normalized row_f2 = 0"
    by (simp_all add: row_f1_def row_f2_def)
  from C7_is_normalized [of rq1 row_f1] C7_is_normalized [of rq1 row_f2] a show ?thesis
    by auto
qed

subsection \<open>Hydration of a quantification\<close>

lemma addRnaQuantMetadata_row:
  "addRnaQuantMetadata self (RnaQuantification_dict r) =
     Inr (self\<lparr>rq_featureSetIds := split_on CHR '','' (q_feature_set_ids r),
               rq_description := PyStr (q_description r),
               rq_name := PyStr (q_name r),
               rq_readGroupIds := (if q_read_group_ids r = [] then []
                                   else split_on CHR '','' (q_read_group_ids r)),
               rq_programs := []\<rparr>)"
  by (simp add: addRnaQuantMetadata_def RnaQuantification_dict_def getitem_def
      RnaQuantification_Row_lookup)

lemma addRnaQuantMetadata_programs:
  "addRnaQuantMetadata self fields' = Inr self' \<Longrightarrow> rq_programs self' = []"
  by (auto simp: addRnaQuantMetadata_def pbind_def getitem_def Let_def
      split: option.splits sum.splits if_splits)

text \<open>
  C8.  After \<open>addRnaQuantMetadata\<close> the program references of the quantification are
  empty: for every RnaQuantification row the call succeeds and leaves them empty,
  whatever the row's \<^verbatim>\<open>programs\<close> column holds, and so does every call that returns.
\<close>

theorem C8_programs_empty:
  "(\<exists>self'. addRnaQuantMetadata self (RnaQuantification_dict r) = Inr self'
           \<and> rq_programs self' = [])
   \<and> (\<forall>fields' self'. addRnaQuantMetadata self fields' = Inr self' \<longrightarrow> rq_programs self' = [])"
  by (auto simp: addRnaQuantMetadata_row dest: addRnaQuantMetadata_programs)

theorem C8_programs_empty_witness:
  "q_programs row_rq1 = ''p1,p2''
   \<and> (\<exists>self'. addRnaQuantMetadata rq1 (RnaQuantification_dict row_rq1) = Inr self'
            \<and> rq_programs self' = [])"
proof -
  have "q_programs row_rq1 = ''p1,p2''"
    by (simp add: row_rq1_def)
  with C8_programs_empty [of rq1 row_rq1] show ?thesis
    by blast
qed

text \<open>
  C9.  Hydrating a quantification from a row whose \<^verbatim>\<open>feature_set_ids\<close> column is the
  empty string gives the feature-set ids the one-element list holding the empty string,
  not the empty list, whereas an empty \<^verbatim>\<open>read_group_ids\<close> column gives the empty list
  of read-group ids, and an empty \<^verbatim>\<open>programs\<close> column the empty list of programs.
\<close>

theorem C9_empty_columns:
  "\<exists>self'. addRnaQuantMetadata self (RnaQuantification_dict r) = Inr self'
        \<and> rq_featureSetIds self' = split_on CHR '','' (q_feature_set_ids r)
        \<and> (q_feature_set_ids r = [] \<longrightarrow> rq_featureSetIds self' = [[]])
        \<and> rq_featureSetIds self' \<noteq> []
        \<and> (q_read_group_ids r = [] \<longrightarrow> rq_readGroupIds self' = [])
        \<and> (q_programs r = [] \<longrightarrow> rq_programs self' = [])"
proof -
  have "split_on CHR '','' s \<noteq> []" for s
    by (induction s) (auto split: list.split)
  then show ?thesis
    by (auto simp: addRnaQuantMetadata_row)
qed

theorem C9_empty_columns_witness:
  "q_feature_set_ids row_rq1 = [] \<and> q_read_group_ids row_rq1 = []
   \<and> (\<exists>self'. addRnaQuantMetadata rq1 (RnaQuantification_dict row_rq1) = Inr self'
        \<and> rq_featureSetIds self' = [[]]
        \<and> rq_readGroupIds self' = [])"
proof -
  have "q_feature_set_ids row_rq1 = []" "q_read_group_ids row_rq1 = []"
    by (simp_all add: row_rq1_def)
  with C9_empty_columns [of rq1 row_rq1] show ?thesis
    by auto
qed

text \<open>
  C10.  For a quantification id that no row of the Expression table has,
  \<open>searchExpressionLevelsInDb\<close> and \<open>getExpressionLevels\<close> return the empty list; they
  raise no not-found exception.
\<close>

theorem C10_empty_scope:
  "\<forall>r \<in> set (Expression db). e_rna_quantification_id r \<noteq> rnaQuantId \<Longrightarrow>
   searchExpressionLevelsInDb db rnaQuantId featureIds pageToken pageSize threshold = Inr []
   \<and> getExpressionLevels db self rnaQuantId pageToken pageSize threshold featureIds = Inr []"
proof -
  assume "\<forall>r \<in> set (Expression db). e_rna_quantification_id r \<noteq> rnaQuantId"
  then have "matching_Expression db rnaQuantId (Some threshold) (idFilterSet_of featureIds) = []"
    by (simp add: matching_Expression_def filter_empty_conv)
  then have "ScopedList_Expression db rnaQuantId (Some threshold) (idFilterSet_of featureIds)
               pageToken pageSize = []"
    by (simp add: ScopedList_Expression_def split: option.split)
  then show ?thesis
    by (simp add: searchExpressionLevelsInDb_eq getExpressionLevels_eq)
qed

theorem C10_empty_scope_witness:
  "searchExpressionLevelsInDb store ''rq2'' [] 0 None 0 = Inr []
   \<and> getExpressionLevels store rq1 ''rq2'' 0 None 0 [] = Inr []"
proof -
  have "\<forall>r \<in> set (Expression store). e_rna_quantification_id r \<noteq> ''rq2''"
    by (simp add: store_def row_f1_def row_f2_def row_f3_def)
  from C10_empty_scope [OF this] show ?thesis
    by simp
qed

end
